theory Spec2Isabelle
  imports Complex_Main
begin

section \<open>Window SqFt Estimator: the annotation engine of the App component\<close>

text \<open>
  The development follows the zoom/pinch-enabled iteration of the component (the unnamed
  source file \<^verbatim>\<open>part_000\<close>), which is the one the specification describes; where the
  earlier iteration \<^verbatim>\<open>src/App.tsx\<close> differs in a handler a claim cites, that handler is
  embedded next to it. The state of the React component (its \<^verbatim>\<open>useState\<close> cells and
  \<^verbatim>\<open>useRef\<close> cells) is one record; every event handler is a function from the state to
  the state it leaves behind after the re-render. Each handler runs on the state of the last
  render, so events are atomic steps.
\<close>

subsection \<open>JavaScript numbers\<close>

text \<open>
  A number is a finite value, one of the two infinities, or NaN. Arithmetic on finite values
  is exact: rounding, overflow and underflow of binary64 are not modelled. Division by zero,
  the arithmetic of the infinities and of NaN, and the comparisons (false whenever a side is
  NaN) are as IEEE 754 and ECMAScript define them. The two zeros are identified, and a zero
  divisor counts as \<open>+0\<close>: every divisor of this component that can be zero is a natural
  size, a size of the canvas rectangle, a square root, or a quotient or product of such
  non-negative values, so it is never \<open>-0\<close>.
\<close>

datatype number = Fin real | PInf | NInf | NaN

instantiation number :: "{zero, plus, uminus, minus, times, inverse, ord}"
begin

definition zero_number :: number where
  "zero_number = Fin 0"

fun uminus_number :: "number \<Rightarrow> number" where
  "uminus_number (Fin a) = Fin (- a)"
| "uminus_number PInf = NInf"
| "uminus_number NInf = PInf"
| "uminus_number NaN = NaN"

fun plus_number :: "number \<Rightarrow> number \<Rightarrow> number" where
  "plus_number (Fin a) (Fin b) = Fin (a + b)"
| "plus_number NaN b = NaN"
| "plus_number a NaN = NaN"
| "plus_number PInf NInf = NaN"
| "plus_number NInf PInf = NaN"
| "plus_number PInf b = PInf"
| "plus_number a PInf = PInf"
| "plus_number NInf b = NInf"
| "plus_number a NInf = NInf"

definition minus_number :: "number \<Rightarrow> number \<Rightarrow> number" where
  "minus_number a b = a + (- b)"

fun times_number :: "number \<Rightarrow> number \<Rightarrow> number" where
  "times_number (Fin a) (Fin b) = Fin (a * b)"
| "times_number NaN b = NaN"
| "times_number a NaN = NaN"
| "times_number PInf (Fin b) = (if b = 0 then NaN else if 0 < b then PInf else NInf)"
| "times_number NInf (Fin b) = (if b = 0 then NaN else if 0 < b then NInf else PInf)"
| "times_number (Fin a) PInf = (if a = 0 then NaN else if 0 < a then PInf else NInf)"
| "times_number (Fin a) NInf = (if a = 0 then NaN else if 0 < a then NInf else PInf)"
| "times_number PInf PInf = PInf"
| "times_number PInf NInf = NInf"
| "times_number NInf PInf = NInf"
| "times_number NInf NInf = PInf"

fun divide_number :: "number \<Rightarrow> number \<Rightarrow> number" where
  "divide_number (Fin a) (Fin b) =
     (if b = 0 then (if a = 0 then NaN else if 0 < a then PInf else NInf) else Fin (a / b))"
| "divide_number NaN b = NaN"
| "divide_number a NaN = NaN"
| "divide_number (Fin a) PInf = Fin 0"
| "divide_number (Fin a) NInf = Fin 0"
| "divide_number PInf (Fin b) = (if 0 \<le> b then PInf else NInf)"
| "divide_number NInf (Fin b) = (if 0 \<le> b then NInf else PInf)"
| "divide_number PInf PInf = NaN"
| "divide_number PInf NInf = NaN"
| "divide_number NInf PInf = NaN"
| "divide_number NInf NInf = NaN"

fun inverse_number :: "number \<Rightarrow> number" where
  "inverse_number (Fin a) = (if a = 0 then PInf else Fin (1 / a))"
| "inverse_number PInf = Fin 0"
| "inverse_number NInf = Fin 0"
| "inverse_number NaN = NaN"

fun less_number :: "number \<Rightarrow> number \<Rightarrow> bool" where
  "less_number (Fin a) (Fin b) = (a < b)"
| "less_number NaN b = False"
| "less_number a NaN = False"
| "less_number a NInf = False"
| "less_number PInf b = False"
| "less_number NInf b = True"
| "less_number (Fin a) PInf = True"

definition less_eq_number :: "number \<Rightarrow> number \<Rightarrow> bool" where
  "less_eq_number a b = (a < b \<or> (a = b \<and> a \<noteq> NaN))"

instance ..

end

fun Math_abs :: "number \<Rightarrow> number" where
  "Math_abs (Fin a) = Fin \<bar>a\<bar>"
| "Math_abs PInf = PInf"
| "Math_abs NInf = PInf"
| "Math_abs NaN = NaN"

fun Math_sqrt :: "number \<Rightarrow> number" where
  "Math_sqrt (Fin a) = (if a < 0 then NaN else Fin (sqrt a))"
| "Math_sqrt PInf = PInf"
| "Math_sqrt NInf = NaN"
| "Math_sqrt NaN = NaN"

definition Math_min :: "number \<Rightarrow> number \<Rightarrow> number" where
  "Math_min a b = (if a = NaN \<or> b = NaN then NaN else if a < b then a else b)"

definition Math_max :: "number \<Rightarrow> number \<Rightarrow> number" where
  "Math_max a b = (if a = NaN \<or> b = NaN then NaN else if a < b then b else a)"

text \<open>The test \<^verbatim>\<open>!v\<close> on a number, and on a number that may be \<^verbatim>\<open>null\<close>.\<close>

definition falsy_number :: "number \<Rightarrow> bool" where
  "falsy_number n = (n = Fin 0 \<or> n = NaN)"

definition falsy :: "number option \<Rightarrow> bool" where
  "falsy v = (case v of None \<Rightarrow> True | Some n \<Rightarrow> falsy_number n)"

subsection \<open>Data\<close>

datatype BoxType = reference | window

record Box =
  box_id :: string
  box_type :: BoxType
  box_label :: string
  box_x :: number
  box_y :: number
  box_w :: number
  box_h :: number

record Point =
  pt_x :: number
  pt_y :: number

record View =
  view_scale :: number
  view_tx :: number
  view_ty :: number

record Pinch =
  pinch_dist :: number
  pinch_mid :: Point
  pinch_scale :: number
  pinch_tx :: number
  pinch_ty :: number

text \<open>
  What the browser hands in is finite: the canvas rectangle, the client coordinates of a
  pointer event and the value of the number input are finite reals, and the natural size of
  a decoded image is a pair of non-negative integers.
\<close>

record DOMRect =
  rect_left :: real
  rect_top :: real
  rect_width :: real
  rect_height :: real

record NaturalSize =
  nat_w :: nat
  nat_h :: nat

datatype RefPreset = paper | door | custom

text \<open>
  \<open>pointers\<close> is the \<^verbatim>\<open>Map<number, {x, y}>\<close> of live pointers; a JavaScript Map iterates
  in insertion order, and the pinch code reads the first two values, so it is an association
  list. \<open>canvasRect\<close> is what \<^verbatim>\<open>canvas.getBoundingClientRect()\<close> returns: it belongs to
  the browser, not to the component, and changes by the event \<open>CanvasLayout\<close>.
\<close>

record AppState =
  imageUrl :: string
  imageNatural :: "NaturalSize option"
  boxes :: "Box list"
  activeDrawType :: BoxType
  dragStart :: "Point option"
  draftBox :: "Box option"
  refPreset :: RefPreset
  refRealInches :: number
  view :: View
  pointers :: "(nat \<times> Point) list"
  pinchStart :: "Pinch option"
  canvasRect :: DOMRect

definition initialState :: AppState where
  "initialState =
     \<lparr> imageUrl = [], imageNatural = None, boxes = [], activeDrawType = reference,
       dragStart = None, draftBox = None, refPreset = paper, refRealInches = Fin 11,
       view = \<lparr> view_scale = Fin 1, view_tx = Fin 0, view_ty = Fin 0 \<rparr>,
       pointers = [], pinchStart = None,
       canvasRect = \<lparr> rect_left = 0, rect_top = 0, rect_width = 0, rect_height = 0 \<rparr> \<rparr>"

subsection \<open>The pointer map\<close>

fun map_set :: "(nat \<times> Point) list \<Rightarrow> nat \<Rightarrow> Point \<Rightarrow> (nat \<times> Point) list" where
  "map_set [] k v = [(k, v)]"
| "map_set ((k', v') # m) k v = (if k' = k then (k, v) # m else (k', v') # map_set m k v)"

definition map_has :: "(nat \<times> Point) list \<Rightarrow> nat \<Rightarrow> bool" where
  "map_has m k = (k \<in> set (map fst m))"

definition map_delete :: "(nat \<times> Point) list \<Rightarrow> nat \<Rightarrow> (nat \<times> Point) list" where
  "map_delete m k = filter (\<lambda>p. fst p \<noteq> k) m"

definition map_values :: "(nat \<times> Point) list \<Rightarrow> Point list" where
  "map_values m = map snd m"

subsection \<open>Small helpers of the component\<close>

definition dist_pt :: "Point \<Rightarrow> Point \<Rightarrow> number" where
  "dist_pt a b =
     (let dx = pt_x a - pt_x b; dy = pt_y a - pt_y b in Math_sqrt (dx * dx + dy * dy))"

definition mid :: "Point \<Rightarrow> Point \<Rightarrow> Point" where
  "mid a b = \<lparr> pt_x = (pt_x a + pt_x b) / Fin 2, pt_y = (pt_y a + pt_y b) / Fin 2 \<rparr>"

definition clampScale :: "number \<Rightarrow> number" where
  "clampScale s = Math_max (Fin 1) (Math_min (Fin 6) s)"

text \<open>The decimal text of a count, as a template literal prints it.\<close>

definition digit_char :: "nat \<Rightarrow> char" where
  "digit_char d = ''0123456789'' ! d"

fun string_of_nat :: "nat \<Rightarrow> string" where
  "string_of_nat n =
     (if n < 10 then [digit_char n] else string_of_nat (n div 10) @ [digit_char (n mod 10)])"

subsection \<open>Derived values: the measurement engine\<close>

definition referenceBox :: "AppState \<Rightarrow> Box option" where
  "referenceBox s = find (\<lambda>b. box_type b = reference) (boxes s)"

text \<open>
  \<^verbatim>\<open>pixelsPerInch\<close>: \<^verbatim>\<open>refRealInches > 0 ? refRealInches : null\<close> is a number exactly
  when the comparison holds, and then it is not falsy.
\<close>

definition pixelsPerInch :: "AppState \<Rightarrow> number option" where
  "pixelsPerInch s =
     (case referenceBox s of
        None \<Rightarrow> None
      | Some rb \<Rightarrow>
          if Fin 0 < refRealInches s then Some (box_h rb / refRealInches s) else None)"

definition windowBoxes :: "AppState \<Rightarrow> Box list" where
  "windowBoxes s = filter (\<lambda>b. box_type b = window) (boxes s)"

text \<open>
  \<^verbatim>\<open>windowSqft\<close>: \<^verbatim>\<open>null\<close> when \<^verbatim>\<open>!pixelsPerInch\<close>, which is true of \<^verbatim>\<open>null\<close>, of 0
  and of NaN; otherwise the loop \<^verbatim>\<open>total += (wIn * hIn) / 144\<close> over the window boxes in
  order, from 0.
\<close>

definition windowSqft :: "AppState \<Rightarrow> number option" where
  "windowSqft s =
     (if falsy (pixelsPerInch s) then None
      else case pixelsPerInch s of
        None \<Rightarrow> None
      | Some ppi \<Rightarrow>
          Some (foldl (\<lambda>total b.
                  let wIn = box_w b / ppi; hIn = box_h b / ppi in total + (wIn * hIn) / Fin 144)
                (Fin 0) (windowBoxes s)))"

subsection \<open>Pricing: the Retail and Commission section\<close>

record Quote =
  solarTotal :: number
  retailLowTotal :: number
  retailHighTotal :: number
  commissionLow :: number
  commissionHigh :: number

definition SOLAR_PER_SQFT :: number where "SOLAR_PER_SQFT = Fin 12"
definition RETAIL_LOW_PER_SQFT :: number where "RETAIL_LOW_PER_SQFT = Fin 14"
definition RETAIL_HIGH_PER_SQFT :: number where "RETAIL_HIGH_PER_SQFT = Fin 15"

definition quote_of :: "number \<Rightarrow> Quote" where
  "quote_of sqft =
     (let solar = sqft * SOLAR_PER_SQFT;
          retailLow = sqft * RETAIL_LOW_PER_SQFT;
          retailHigh = sqft * RETAIL_HIGH_PER_SQFT
      in \<lparr> solarTotal = solar, retailLowTotal = retailLow, retailHighTotal = retailHigh,
           commissionLow = retailLow - solar, commissionHigh = retailHigh - solar \<rparr>)"

text \<open>
  The section renders the placeholder when \<^verbatim>\<open>!windowSqft || !pixelsPerInch\<close>; otherwise it
  renders the quote.
\<close>

definition retailCommission :: "AppState \<Rightarrow> Quote option" where
  "retailCommission s =
     (if falsy (windowSqft s) \<or> falsy (pixelsPerInch s) then None
      else case windowSqft s of None \<Rightarrow> None | Some sqft \<Rightarrow> Some (quote_of sqft))"

text \<open>
  The earlier iteration \<^verbatim>\<open>src/App.tsx\<close> has the same section with a retail high rate
  of 16 instead of 15.
\<close>

definition RETAIL_HIGH_PER_SQFT_App :: number where "RETAIL_HIGH_PER_SQFT_App = Fin 16"

definition quote_of_App :: "number \<Rightarrow> Quote" where
  "quote_of_App sqft =
     (let solar = sqft * SOLAR_PER_SQFT;
          retailLow = sqft * RETAIL_LOW_PER_SQFT;
          retailHigh = sqft * RETAIL_HIGH_PER_SQFT_App
      in \<lparr> solarTotal = solar, retailLowTotal = retailLow, retailHighTotal = retailHigh,
           commissionLow = retailLow - solar, commissionHigh = retailHigh - solar \<rparr>)"

definition retailCommission_App :: "AppState \<Rightarrow> Quote option" where
  "retailCommission_App s =
     (if falsy (windowSqft s) \<or> falsy (pixelsPerInch s) then None
      else case windowSqft s of None \<Rightarrow> None | Some sqft \<Rightarrow> Some (quote_of_App sqft))"

subsection \<open>Geometry: the contain fit and the device-to-image transform\<close>

record Info =
  info_rect :: DOMRect
  baseW :: number
  baseH :: number
  baseOffsetX :: number
  baseOffsetY :: number
  baseScale :: number

text \<open>
  The canvas and the hidden image element are rendered only when \<open>imageUrl\<close> is not
  empty, so their refs are \<^verbatim>\<open>null\<close> exactly when it is empty. The source assigns
  \<^verbatim>\<open>baseW\<close>, \<^verbatim>\<open>baseH\<close> and the two offsets in the two branches of one
  \<^verbatim>\<open>if (imgAspect > canvasAspect)\<close>; here each of the four is given by that test.
\<close>

definition getCanvasAndImageScale :: "AppState \<Rightarrow> Info option" where
  "getCanvasAndImageScale s =
     (if imageUrl s = [] then None
      else case imageNatural s of
        None \<Rightarrow> None
      | Some n \<Rightarrow>
          let rect = canvasRect s;
              displayW = Fin (rect_width rect);
              displayH = Fin (rect_height rect);
              imgAspect = Fin (real (nat_w n)) / Fin (real (nat_h n));
              canvasAspect = displayW / displayH;
              bW = (if canvasAspect < imgAspect then displayW else displayH * imgAspect);
              bH = (if canvasAspect < imgAspect then displayW / imgAspect else displayH);
              bOffsetX = (if canvasAspect < imgAspect then Fin 0 else (displayW - bW) / Fin 2);
              bOffsetY = (if canvasAspect < imgAspect then (displayH - bH) / Fin 2 else Fin 0)
          in Some \<lparr> info_rect = rect, baseW = bW, baseH = bH,
                    baseOffsetX = bOffsetX, baseOffsetY = bOffsetY,
                    baseScale = bW / Fin (real (nat_w n)) \<rparr>)"

text \<open>
  \<^verbatim>\<open>canvasPointToImagePoint\<close>: the four range tests are comparisons, false when the
  coordinate is NaN, so a NaN coordinate is returned as a point.
\<close>

definition canvasPointToImagePoint :: "AppState \<Rightarrow> real \<Rightarrow> real \<Rightarrow> Point option" where
  "canvasPointToImagePoint s clientX clientY =
     (case getCanvasAndImageScale s of
        None \<Rightarrow> None
      | Some info \<Rightarrow>
         (case imageNatural s of
            None \<Rightarrow> None
          | Some n \<Rightarrow>
              let xCanvas = Fin clientX - Fin (rect_left (info_rect info));
                  yCanvas = Fin clientY - Fin (rect_top (info_rect info));
                  xInBase = xCanvas - baseOffsetX info;
                  yInBase = yCanvas - baseOffsetY info;
                  xUnzoom = (xInBase - view_tx (view s)) / view_scale (view s);
                  yUnzoom = (yInBase - view_ty (view s)) / view_scale (view s);
                  xImg = xUnzoom / baseScale info;
                  yImg = yUnzoom / baseScale info
              in if xImg < Fin 0 \<or> yImg < Fin 0 then None
                 else if Fin (real (nat_w n)) < xImg \<or> Fin (real (nat_h n)) < yImg then None
                 else Some \<lparr> pt_x = xImg, pt_y = yImg \<rparr>))"

text \<open>
  The drawing effect maps image coordinates to the canvas by the same quantities in the
  opposite order (\<^verbatim>\<open>drawBox\<close>). Whether this transform gives back the point the
  renderer was handed depends on how binary64 rounds each step, which the arithmetic here
  does not have; the round trip (claim C3) is therefore not stated, and \<^verbatim>\<open>drawBox\<close> is
  not embedded.
\<close>

subsection \<open>Handlers\<close>

definition resetAll :: "AppState \<Rightarrow> AppState" where
  "resetAll s = s\<lparr> boxes := [], draftBox := None, dragStart := None \<rparr>"

definition resetView :: "AppState \<Rightarrow> AppState" where
  "resetView s = s\<lparr> view := \<lparr> view_scale = Fin 1, view_tx = Fin 0, view_ty = Fin 0 \<rparr> \<rparr>"

text \<open>
  \<^verbatim>\<open>onFileChange\<close>: the argument is the object URL of the chosen file, or \<open>None\<close> when
  the input holds no file. It does not touch \<open>imageNatural\<close>, which only the load event
  of the image element writes.
\<close>

definition onFileChange :: "string option \<Rightarrow> AppState \<Rightarrow> AppState" where
  "onFileChange f s =
     (case f of
        None \<Rightarrow> s
      | Some url \<Rightarrow> resetView (resetAll (s\<lparr> imageUrl := url \<rparr>)))"

text \<open>
  The same handler in the earlier iteration \<^verbatim>\<open>src/App.tsx\<close>, which has the view state
  and the pinch handlers but no \<^verbatim>\<open>resetView\<close>.
\<close>

definition onFileChange_App :: "string option \<Rightarrow> AppState \<Rightarrow> AppState" where
  "onFileChange_App f s =
     (case f of
        None \<Rightarrow> s
      | Some url \<Rightarrow> resetAll (s\<lparr> imageUrl := url \<rparr>))"

definition syncRefPreset :: "RefPreset \<Rightarrow> AppState \<Rightarrow> AppState" where
  "syncRefPreset p s =
     (let s1 = s\<lparr> refPreset := p \<rparr>;
          s2 = (if p = paper then s1\<lparr> refRealInches := Fin 11 \<rparr> else s1)
      in (if p = door then s2\<lparr> refRealInches := Fin 80 \<rparr> else s2))"

definition draftLabel :: "AppState \<Rightarrow> string" where
  "draftLabel s =
     (if activeDrawType s = reference
      then (if refPreset s = paper then ''Paper''
            else if refPreset s = door then ''Door'' else ''Reference'')
      else ''Window '' @ string_of_nat (length (windowBoxes s) + 1))"

definition handlePointerDown :: "real \<Rightarrow> real \<Rightarrow> AppState \<Rightarrow> AppState" where
  "handlePointerDown clientX clientY s =
     (if imageUrl s = [] then s
      else case canvasPointToImagePoint s clientX clientY of
        None \<Rightarrow> s
      | Some pt \<Rightarrow>
          s\<lparr> dragStart := Some pt,
             draftBox := Some \<lparr> box_id = ''draft'', box_type = activeDrawType s,
                                box_label = draftLabel s,
                                box_x = pt_x pt, box_y = pt_y pt,
                                box_w = Fin 1, box_h = Fin 1 \<rparr> \<rparr>)"

definition handlePointerMove :: "real \<Rightarrow> real \<Rightarrow> AppState \<Rightarrow> AppState" where
  "handlePointerMove clientX clientY s =
     (case dragStart s of
        None \<Rightarrow> s
      | Some ds \<Rightarrow>
         (case draftBox s of
            None \<Rightarrow> s
          | Some d \<Rightarrow>
             (case canvasPointToImagePoint s clientX clientY of
                None \<Rightarrow> s
              | Some pt \<Rightarrow>
                  let x1 = pt_x ds; y1 = pt_y ds; x2 = pt_x pt; y2 = pt_y pt
                  in s\<lparr> draftBox := Some (d\<lparr> box_x := Math_min x1 x2, box_y := Math_min y1 y2,
                                              box_w := Math_abs (x2 - x1),
                                              box_h := Math_abs (y2 - y1) \<rparr>) \<rparr>)))"

text \<open>
  \<^verbatim>\<open>handlePointerUp\<close>: \<open>newId\<close> is the string \<^verbatim>\<open>uid()\<close> returns when the handler calls
  it (random digits and the clock), an input of the model. The size test is
  \<^verbatim>\<open>draftBox.w < 10 || draftBox.h < 10\<close>, two comparisons.
\<close>

definition handlePointerUp :: "string \<Rightarrow> AppState \<Rightarrow> AppState" where
  "handlePointerUp newId s =
     (case draftBox s of
        None \<Rightarrow> s\<lparr> dragStart := None \<rparr>
      | Some d \<Rightarrow>
          if box_w d < Fin 10 \<or> box_h d < Fin 10 then s\<lparr> draftBox := None, dragStart := None \<rparr>
          else if box_type d = reference
          then s\<lparr> boxes := filter (\<lambda>b. box_type b \<noteq> reference) (boxes s) @ [d\<lparr> box_id := newId \<rparr>],
                  draftBox := None, dragStart := None \<rparr>
          else s\<lparr> boxes := boxes s @ [d\<lparr> box_id := newId \<rparr>],
                  draftBox := None, dragStart := None \<rparr>)"

definition deleteBox :: "string \<Rightarrow> AppState \<Rightarrow> AppState" where
  "deleteBox i s = s\<lparr> boxes := filter (\<lambda>b. box_id b \<noteq> i) (boxes s) \<rparr>"

text \<open>
  The four inline pointer handlers of the canvas element. The test
  \<^verbatim>\<open>pointers.current.size === 2\<close> and the reading of the two values
  \<^verbatim>\<open>pts[0]\<close>, \<^verbatim>\<open>pts[1]\<close> are one match on the list of values.
\<close>

definition onPointerDown :: "nat \<Rightarrow> real \<Rightarrow> real \<Rightarrow> AppState \<Rightarrow> AppState" where
  "onPointerDown pointerId clientX clientY s =
     (let s1 = s\<lparr> pointers := map_set (pointers s) pointerId
                                  \<lparr> pt_x = Fin clientX, pt_y = Fin clientY \<rparr> \<rparr>
      in case map_values (pointers s1) of
           [p0, p1] \<Rightarrow>
             s1\<lparr> pinchStart := Some \<lparr> pinch_dist = dist_pt p0 p1, pinch_mid = mid p0 p1,
                                      pinch_scale = view_scale (view s1),
                                      pinch_tx = view_tx (view s1),
                                      pinch_ty = view_ty (view s1) \<rparr>,
                 dragStart := None, draftBox := None \<rparr>
         | _ \<Rightarrow> handlePointerDown clientX clientY s1)"

definition onPointerMove :: "nat \<Rightarrow> real \<Rightarrow> real \<Rightarrow> AppState \<Rightarrow> AppState" where
  "onPointerMove pointerId clientX clientY s =
     (if \<not> map_has (pointers s) pointerId then s
      else
        let s1 = s\<lparr> pointers := map_set (pointers s) pointerId
                                    \<lparr> pt_x = Fin clientX, pt_y = Fin clientY \<rparr> \<rparr>
        in case map_values (pointers s1) of
             [p0, p1] \<Rightarrow>
               (case pinchStart s1 of
                  Some start \<Rightarrow>
                    let dNow = dist_pt p0 p1;
                        mNow = mid p0 p1;
                        nextScale = clampScale (pinch_scale start * (dNow / pinch_dist start));
                        dxMid = pt_x mNow - pt_x (pinch_mid start);
                        dyMid = pt_y mNow - pt_y (pinch_mid start)
                    in s1\<lparr> view := \<lparr> view_scale = nextScale,
                                      view_tx = pinch_tx start + dxMid,
                                      view_ty = pinch_ty start + dyMid \<rparr> \<rparr>
                | None \<Rightarrow> handlePointerMove clientX clientY s1)
           | _ \<Rightarrow> handlePointerMove clientX clientY s1)"

definition onPointerUp :: "nat \<Rightarrow> string \<Rightarrow> AppState \<Rightarrow> AppState" where
  "onPointerUp pointerId newId s =
     (let s1 = s\<lparr> pointers := map_delete (pointers s) pointerId \<rparr>;
          s2 = (if length (pointers s1) < 2 then s1\<lparr> pinchStart := None \<rparr> else s1)
      in if length (pointers s2) = 0
         then (handlePointerUp newId s2)\<lparr> pointers := [], pinchStart := None \<rparr>
         else s2)"

definition onPointerCancel :: "nat \<Rightarrow> AppState \<Rightarrow> AppState" where
  "onPointerCancel pointerId s =
     s\<lparr> pointers := [], pinchStart := None, dragStart := None, draftBox := None \<rparr>"

subsection \<open>Events and traces\<close>

text \<open>
  Every event the component handles. A trace is any list of events, run from a state by
  applying the handlers in order; no event is excluded.
\<close>

datatype Event =
    FileChange "string option"
  | ImgLoad nat nat
  | CanvasLayout DOMRect
  | PointerDown nat real real
  | PointerMove nat real real
  | PointerUp nat string
  | PointerCancel nat
  | SetActiveDrawType BoxType
  | SyncRefPreset RefPreset
  | SetRefRealInches real
  | DeleteBox string
  | ResetAll
  | ResetView

fun step :: "AppState \<Rightarrow> Event \<Rightarrow> AppState" where
  "step s (FileChange f) = onFileChange f s"
| "step s (ImgLoad nw nh) = s\<lparr> imageNatural := Some \<lparr> nat_w = nw, nat_h = nh \<rparr> \<rparr>"
| "step s (CanvasLayout r) = s\<lparr> canvasRect := r \<rparr>"
| "step s (PointerDown pointerId cx cy) = onPointerDown pointerId cx cy s"
| "step s (PointerMove pointerId cx cy) = onPointerMove pointerId cx cy s"
| "step s (PointerUp pointerId newId) = onPointerUp pointerId newId s"
| "step s (PointerCancel pointerId) = onPointerCancel pointerId s"
| "step s (SetActiveDrawType t) = s\<lparr> activeDrawType := t \<rparr>"
| "step s (SyncRefPreset p) = syncRefPreset p s"
| "step s (SetRefRealInches r) = s\<lparr> refRealInches := Fin r \<rparr>"
| "step s (DeleteBox i) = deleteBox i s"
| "step s ResetAll = resetAll s"
| "step s ResetView = resetView s"

fun run :: "AppState \<Rightarrow> Event list \<Rightarrow> AppState" where
  "run s [] = s"
| "run s (e # es) = run (step s e) es"

subsection \<open>Vocabulary of the properties\<close>

text \<open>
  At most one calibration rectangle; every committed rectangle at least 10 by 10; the
  scale within \<open>[1, 6]\<close>; every committed rectangle within the recorded natural size.
\<close>

definition one_reference :: "AppState \<Rightarrow> bool" where
  "one_reference s = (length (filter (\<lambda>b. box_type b = reference) (boxes s)) \<le> 1)"

definition min_size :: "AppState \<Rightarrow> bool" where
  "min_size s = list_all (\<lambda>b. Fin 10 \<le> box_w b \<and> Fin 10 \<le> box_h b) (boxes s)"

definition scale_ok :: "AppState \<Rightarrow> bool" where
  "scale_ok s = (Fin 1 \<le> view_scale (view s) \<and> view_scale (view s) \<le> Fin 6)"

definition in_bounds :: "NaturalSize \<Rightarrow> Box \<Rightarrow> bool" where
  "in_bounds n b =
     (Fin 0 \<le> box_x b \<and> Fin 0 \<le> box_y b
      \<and> box_x b + box_w b \<le> Fin (real (nat_w n)) \<and> box_y b + box_h b \<le> Fin (real (nat_h n)))"

definition committed_in_bounds :: "AppState \<Rightarrow> bool" where
  "committed_in_bounds s =
     (case imageNatural s of None \<Rightarrow> boxes s = [] | Some n \<Rightarrow> list_all (in_bounds n) (boxes s))"

text \<open>What the size test of \<^verbatim>\<open>handlePointerUp\<close> lets through.\<close>

definition not_small :: "Box \<Rightarrow> bool" where
  "not_small b = (\<not> (box_w b < Fin 10 \<or> box_h b < Fin 10))"

text \<open>
  A sequence of commits: each draft, as a drag left it, is released with the identity
  \<^verbatim>\<open>uid()\<close> gives it.
\<close>

fun commitAll :: "(Box \<times> string) list \<Rightarrow> AppState \<Rightarrow> AppState" where
  "commitAll [] s = s"
| "commitAll ((d, newId) # ds) s = commitAll ds (handlePointerUp newId (s\<lparr> draftBox := Some d \<rparr>))"

definition committable_reference :: "Box \<times> string \<Rightarrow> bool" where
  "committable_reference p = (box_type (fst p) = reference \<and> not_small (fst p))"

subsection \<open>Sample inputs\<close>

definition sample_box :: "BoxType \<Rightarrow> string \<Rightarrow> real \<Rightarrow> real \<Rightarrow> real \<Rightarrow> real \<Rightarrow> Box" where
  "sample_box t l bx by' bw bh =
     \<lparr> box_id = ''draft'', box_type = t, box_label = l,
       box_x = Fin bx, box_y = Fin by', box_w = Fin bw, box_h = Fin bh \<rparr>"

definition photo_loaded :: "Event list" where
  "photo_loaded =
     [FileChange (Some ''blob:photo''), ImgLoad 1000 800,
      CanvasLayout \<lparr> rect_left = 0, rect_top = 0, rect_width = 1000, rect_height = 800 \<rparr>]"

definition two_references_trace :: "Event list" where
  "two_references_trace =
     photo_loaded @
     [PointerDown 1 100 100, PointerMove 1 150 300, PointerUp 1 ''a'',
      PointerDown 1 400 100, PointerMove 1 500 320, PointerUp 1 ''b'']"

definition relabel_trace :: "Event list" where
  "relabel_trace =
     photo_loaded @
     [SetActiveDrawType window,
      PointerDown 1 100 100, PointerMove 1 200 150, PointerUp 1 ''a'',
      PointerDown 1 300 100, PointerMove 1 400 150, PointerUp 1 ''b'',
      DeleteBox ''a'',
      PointerDown 1 500 100, PointerMove 1 600 150, PointerUp 1 ''c'']"


definition one_window_state :: AppState where
  "one_window_state =
     initialState\<lparr> boxes := [(sample_box reference ''Paper'' 0 0 50 110)\<lparr> box_id := ''r'' \<rparr>,
                              (sample_box window ''Window 1'' 0 0 100 50)\<lparr> box_id := ''w'' \<rparr>] \<rparr>"

definition reference_only_state :: AppState where
  "reference_only_state =
     initialState\<lparr> boxes := [(sample_box reference ''Paper'' 0 0 50 110)\<lparr> box_id := ''r'' \<rparr>] \<rparr>"

text \<open>
  An image whose natural size is 0 by 0 (an SVG without intrinsic dimensions reports that
  size in some browsers), and one drag on it.
\<close>

definition zero_size_trace :: "Event list" where
  "zero_size_trace =
     [FileChange (Some ''blob:photo''), ImgLoad 0 0,
      CanvasLayout \<lparr> rect_left = 0, rect_top = 0, rect_width = 1000, rect_height = 800 \<rparr>,
      PointerDown 1 100 100, PointerMove 1 300 300, PointerUp 1 ''a'']"

text \<open>Two pointers go down on the same spot, and one of them reports a move there.\<close>

definition coincident_pinch_trace :: "Event list" where
  "coincident_pinch_trace =
     photo_loaded @ [PointerDown 1 100 100, PointerDown 2 100 100, PointerMove 2 100 100]"

text \<open>
  A second photo is chosen, a rectangle is dragged before its load event arrives, and the
  new photo turns out smaller.
\<close>

definition stale_size_trace :: "Event list" where
  "stale_size_trace =
     photo_loaded @
     [FileChange (Some ''blob:second''),
      PointerDown 1 600 500, PointerMove 1 900 700, PointerUp 1 ''a'',
      ImgLoad 500 400]"

text \<open>A photo on screen, zoomed and panned.\<close>

definition zoomed_state :: AppState where
  "zoomed_state =
     initialState\<lparr> imageUrl := ''blob:photo'',
                    imageNatural := Some \<lparr> nat_w = 1000, nat_h = 800 \<rparr>,
                    view := \<lparr> view_scale = Fin 2, view_tx = Fin 30, view_ty = Fin (- 40) \<rparr> \<rparr>"

section \<open>Properties\<close>

subsection \<open>Numbers\<close>

text \<open>Addition of numbers is associative and commutative, and 0 is neutral.\<close>

lemma plus_number_assoc: "(x + y) + z = x + (y + z)" for x y z :: number
  by (cases x; cases y; cases z; simp)

lemma plus_number_commute: "x + y = y + x" for x y :: number
  by (cases x; cases y; simp)

lemma plus_number_zero: "Fin 0 + x = x"
  by (cases x; simp)

instance number :: comm_monoid_add
proof (standard, goal_cases)
  case (1 x y z)
  show ?case by (rule plus_number_assoc)
next
  case (2 x y)
  show ?case by (rule plus_number_commute)
next
  case (3 x)
  show ?case unfolding zero_number_def by (rule plus_number_zero)
qed

lemma positive_not_falsy: "Fin 0 < a \<Longrightarrow> \<not> falsy_number a"
  by (cases a) (simp_all add: falsy_number_def)

lemma not_positive: "a \<le> Fin 0 \<or> a = NaN \<Longrightarrow> \<not> Fin 0 < a"
  by (cases a) (auto simp: less_eq_number_def)

lemma times_rate_nonzero:
  assumes "\<not> falsy_number a" "r \<noteq> 0"
  shows "a * Fin r \<noteq> Fin 0"
  using assms by (cases a) (simp_all add: falsy_number_def)

lemma NaN_not_le: "\<not> a \<le> NaN" "\<not> NaN \<le> a"
  by (cases a; simp add: less_eq_number_def)+

subsection \<open>Evaluation and traces\<close>

lemmas number_defs =
  minus_number_def less_eq_number_def Math_min_def Math_max_def falsy_def falsy_number_def

lemmas handler_defs =
  onFileChange_def resetAll_def resetView_def syncRefPreset_def draftLabel_def
  handlePointerDown_def handlePointerMove_def handlePointerUp_def deleteBox_def
  onPointerDown_def onPointerMove_def onPointerUp_def onPointerCancel_def
  map_has_def map_delete_def map_values_def
  getCanvasAndImageScale_def canvasPointToImagePoint_def
  windowBoxes_def digit_char_def mid_def dist_pt_def clampScale_def

lemmas trace_defs = photo_loaded_def initialState_def

lemma run_invariant:
  assumes "\<And>s e. P s \<Longrightarrow> P (step s e)"
  shows "P s \<Longrightarrow> P (run s es)"
  by (induction es arbitrary: s) (simp_all add: assms)

subsection \<open>What one event does to the committed set\<close>

lemma handlePointerDown_boxes [simp]: "boxes (handlePointerDown cx cy s) = boxes s"
  by (simp add: handlePointerDown_def split: option.splits)

lemma handlePointerMove_boxes [simp]: "boxes (handlePointerMove cx cy s) = boxes s"
  by (simp add: handlePointerMove_def Let_def split: option.splits)

lemma onPointerDown_boxes: "boxes (onPointerDown p cx cy s) = boxes s"
  by (simp add: onPointerDown_def Let_def split: list.splits)

lemma onPointerMove_boxes: "boxes (onPointerMove p cx cy s) = boxes s"
  by (simp add: onPointerMove_def Let_def split: list.splits option.splits)

lemma onPointerUp_boxes:
  "boxes (onPointerUp p i s) = boxes (handlePointerUp i s) \<or> boxes (onPointerUp p i s) = boxes s"
  by (simp add: onPointerUp_def Let_def handlePointerUp_def split: option.splits)

lemma handlePointerUp_boxes_cases:
  "boxes (handlePointerUp i s) = boxes s
   \<or> (\<exists>d. draftBox s = Some d \<and> not_small d \<and> box_type d = reference
          \<and> boxes (handlePointerUp i s)
              = filter (\<lambda>b. box_type b \<noteq> reference) (boxes s) @ [d\<lparr> box_id := i \<rparr>])
   \<or> (\<exists>d. draftBox s = Some d \<and> not_small d \<and> box_type d = window
          \<and> boxes (handlePointerUp i s) = boxes s @ [d\<lparr> box_id := i \<rparr>])"
  by (cases "draftBox s") (auto simp: handlePointerUp_def not_small_def intro: BoxType.exhaust)

lemma step_boxes_cases:
  "boxes (step s e) = boxes s
   \<or> boxes (step s e) = []
   \<or> (\<exists>i. boxes (step s e) = filter (\<lambda>b. box_id b \<noteq> i) (boxes s))
   \<or> (\<exists>d i. draftBox s = Some d \<and> not_small d \<and> box_type d = reference
          \<and> boxes (step s e)
              = filter (\<lambda>b. box_type b \<noteq> reference) (boxes s) @ [d\<lparr> box_id := i \<rparr>])
   \<or> (\<exists>d i. draftBox s = Some d \<and> not_small d \<and> box_type d = window
          \<and> boxes (step s e) = boxes s @ [d\<lparr> box_id := i \<rparr>])"
proof (cases e)
  case (PointerUp p i)
  from onPointerUp_boxes[of p i s] handlePointerUp_boxes_cases[of i s] PointerUp
  show ?thesis by auto
qed (auto simp: onFileChange_def resetAll_def resetView_def onPointerDown_boxes onPointerMove_boxes
      onPointerCancel_def syncRefPreset_def Let_def deleteBox_def split: option.splits)

subsection \<open>The calibration rectangle is unique\<close>

lemma length_filter_filter_le:
  "length (filter P (filter Q xs)) \<le> length (filter P xs)"
  by (induction xs) auto

lemma step_one_reference:
  assumes "one_reference s"
  shows "one_reference (step s e)"
proof -
  let ?R = "\<lambda>b. box_type b = reference"
  consider (same) "boxes (step s e) = boxes s"
    | (empty) "boxes (step s e) = []"
    | (del) i where "boxes (step s e) = filter (\<lambda>b. box_id b \<noteq> i) (boxes s)"
    | (ref) d i where "box_type d = reference"
        "boxes (step s e) = filter (\<lambda>b. box_type b \<noteq> reference) (boxes s) @ [d\<lparr> box_id := i \<rparr>]"
    | (win) d i where "box_type d = window" "boxes (step s e) = boxes s @ [d\<lparr> box_id := i \<rparr>]"
    using step_boxes_cases[of s e] by blast
  then show ?thesis
  proof cases
    case same
    with assms show ?thesis by (simp add: one_reference_def)
  next
    case empty
    then show ?thesis by (simp add: one_reference_def)
  next
    case (del i)
    have "length (filter ?R (filter (\<lambda>b. box_id b \<noteq> i) (boxes s))) \<le> length (filter ?R (boxes s))"
      by (rule length_filter_filter_le)
    with assms del show ?thesis by (simp add: one_reference_def)
  next
    case (ref d i)
    then show ?thesis by (simp add: one_reference_def)
  next
    case (win d i)
    with assms show ?thesis by (simp add: one_reference_def)
  qed
qed

lemma one_reference_initial: "one_reference initialState"
  by (simp add: one_reference_def initialState_def)

lemma commit_reference:
  assumes "committable_reference (d, i)"
  shows "filter (\<lambda>b. box_type b = reference) (boxes (handlePointerUp i (s\<lparr> draftBox := Some d \<rparr>)))
           = [d\<lparr> box_id := i \<rparr>]"
  using assms by (simp add: committable_reference_def not_small_def handlePointerUp_def)

lemma commitAll_references:
  assumes "ds \<noteq> []" "list_all committable_reference ds"
  shows "filter (\<lambda>b. box_type b = reference) (boxes (commitAll ds s))
           = [(fst (last ds))\<lparr> box_id := snd (last ds) \<rparr>]"
  using assms
proof (induction ds arbitrary: s)
  case Nil
  then show ?case by simp
next
  case (Cons p ds)
  obtain d i where p: "p = (d, i)" by (cases p)
  show ?case
  proof (cases "ds = []")
    case True
    with Cons.prems p show ?thesis by (simp add: commit_reference)
  next
    case False
    with Cons.prems have "filter (\<lambda>b. box_type b = reference)
        (boxes (commitAll ds (handlePointerUp i (s\<lparr> draftBox := Some d \<rparr>))))
        = [(fst (last ds))\<lparr> box_id := snd (last ds) \<rparr>]"
      by (intro Cons.IH) simp_all
    with False p show ?thesis by simp
  qed
qed

lemma release_commits_reference:
  assumes "draftBox s = Some d" "committable_reference (d, newId)"
    "map_delete (pointers s) pointerId = []"
  shows "filter (\<lambda>b. box_type b = reference) (boxes (step s (PointerUp pointerId newId)))
           = [d\<lparr> box_id := newId \<rparr>]"
  using assms
  by (simp add: onPointerUp_def handlePointerUp_def committable_reference_def not_small_def Let_def)

text \<open>
  Claim C1. At most one calibration (reference) rectangle is in the committed set at any
  time: after every sequence of events, at most one committed rectangle has the reference
  kind; releasing the last pointer on a calibration draft that passes the size test leaves
  that draft, under its new identity, as the only calibration rectangle; and after
  committing a non-empty sequence of calibration rectangles, from any state, exactly one
  calibration rectangle remains, the last one committed.
\<close>

theorem calibration_singleton:
  "length (filter (\<lambda>b. box_type b = reference) (boxes (run initialState es))) \<le> 1
   \<and> (draftBox s1 = Some d \<and> committable_reference (d, newId)
        \<and> map_delete (pointers s1) pointerId = [] \<longrightarrow>
        filter (\<lambda>b. box_type b = reference) (boxes (step s1 (PointerUp pointerId newId)))
          = [d\<lparr> box_id := newId \<rparr>])
   \<and> (ds \<noteq> [] \<and> list_all committable_reference ds \<longrightarrow>
        filter (\<lambda>b. box_type b = reference) (boxes (commitAll ds s0))
          = [(fst (last ds))\<lparr> box_id := snd (last ds) \<rparr>])"
proof (intro conjI impI)
  from one_reference_initial have "one_reference (run initialState es)"
    by (rule run_invariant[of one_reference, rotated]) (rule step_one_reference)
  then show "length (filter (\<lambda>b. box_type b = reference) (boxes (run initialState es))) \<le> 1"
    by (simp add: one_reference_def)
next
  assume "draftBox s1 = Some d \<and> committable_reference (d, newId)
        \<and> map_delete (pointers s1) pointerId = []"
  then show "filter (\<lambda>b. box_type b = reference) (boxes (step s1 (PointerUp pointerId newId)))
          = [d\<lparr> box_id := newId \<rparr>]"
    using release_commits_reference[of s1 d newId pointerId] by simp
next
  assume "ds \<noteq> [] \<and> list_all committable_reference ds"
  then show "filter (\<lambda>b. box_type b = reference) (boxes (commitAll ds s0))
          = [(fst (last ds))\<lparr> box_id := snd (last ds) \<rparr>]"
    by (simp add: commitAll_references)
qed

theorem calibration_singleton_witness:
  "map box_id (boxes (run initialState two_references_trace)) = [''b'']
   \<and> length (filter (\<lambda>b. box_type b = reference) (boxes (run initialState two_references_trace))) \<le> 1
   \<and> filter (\<lambda>b. box_type b = reference)
        (boxes (step (reference_only_state\<lparr> draftBox := Some (sample_box reference ''Door'' 5 5 60 300),
                                            pointers := [(1, \<lparr> pt_x = Fin 65, pt_y = Fin 305 \<rparr>)] \<rparr>)
                  (PointerUp 1 ''b'')))
       = [(sample_box reference ''Door'' 5 5 60 300)\<lparr> box_id := ''b'' \<rparr>]
   \<and> filter (\<lambda>b. box_type b = reference)
        (boxes (commitAll [(sample_box reference ''Paper'' 0 0 50 200, ''a''),
                           (sample_box reference ''Door'' 5 5 60 300, ''b'')]
                  (initialState\<lparr> boxes := [sample_box window ''Window 1'' 1 1 20 20] \<rparr>)))
       = [(sample_box reference ''Door'' 5 5 60 300)\<lparr> box_id := ''b'' \<rparr>]"
proof -
  have t: "map box_id (boxes (run initialState two_references_trace)) = [''b'']"
    by (simp add: trace_defs two_references_trace_def handler_defs number_defs Let_def)
  let ?d = "sample_box reference ''Door'' 5 5 60 300"
  let ?s1 = "reference_only_state\<lparr> draftBox := Some ?d,
                                    pointers := [(1, \<lparr> pt_x = Fin 65, pt_y = Fin 305 \<rparr>)] \<rparr>"
  let ?ds = "[(sample_box reference ''Paper'' 0 0 50 200, ''a''), (?d, ''b'')]"
  have s1: "draftBox ?s1 = Some ?d \<and> committable_reference (?d, ''b'')
        \<and> map_delete (pointers ?s1) 1 = []"
    by (simp add: committable_reference_def not_small_def sample_box_def map_delete_def)
  have ds: "?ds \<noteq> [] \<and> list_all committable_reference ?ds"
    by (simp add: committable_reference_def not_small_def sample_box_def)
  from calibration_singleton[of two_references_trace ?s1 ?d "''b''" 1 ?ds
      "initialState\<lparr> boxes := [sample_box window ''Window 1'' 1 1 20 20] \<rparr>"] t s1 ds
  show ?thesis by simp
qed

subsection \<open>The minimum size\<close>

text \<open>
  What the code guarantees: a draft with \<open>w < 10\<close> or \<open>h < 10\<close> is discarded and the
  committed set is unchanged, and no committed rectangle ever has a width or a height that
  compares below 10.
\<close>

lemma small_draft_discarded:
  assumes "draftBox s = Some d" "box_w d < Fin 10 \<or> box_h d < Fin 10"
  shows "boxes (handlePointerUp newId s) = boxes s"
    and "draftBox (handlePointerUp newId s) = None"
    and "boxes (step s (PointerUp pointerId newId)) = boxes s"
  using assms by (auto simp: handlePointerUp_def onPointerUp_def Let_def)

lemma step_not_small:
  "list_all not_small (boxes s) \<Longrightarrow> list_all not_small (boxes (step s e))"
  using step_boxes_cases[of s e]
  by (auto simp: list_all_iff not_small_def)

lemma committed_not_small: "list_all not_small (boxes (run initialState es))"
proof -
  have "list_all not_small (boxes initialState)"
    by (simp add: initialState_def)
  then show ?thesis
    by (rule run_invariant[of "\<lambda>s. list_all not_small (boxes s)", rotated]) (rule step_not_small)
qed

text \<open>
  Claim C2 (every committed rectangle has \<open>w \<ge> 10\<close> and \<open>h \<ge> 10\<close>) is broken by the
  code: both comparisons of the size test are false of NaN. On an image of natural size 0
  by 0 the contain fit divides 0 by 0, \<^verbatim>\<open>canvasPointToImagePoint\<close> returns the point
  (NaN, NaN), whose range tests are comparisons too, and the drag is committed with NaN
  for its position and its size.
\<close>

theorem nan_box_committed:
  "boxes (run initialState zero_size_trace)
     = [\<lparr> box_id = ''a'', box_type = reference, box_label = ''Paper'',
          box_x = NaN, box_y = NaN, box_w = NaN, box_h = NaN \<rparr>]
   \<and> \<not> min_size (run initialState zero_size_trace)"
proof -
  have b: "boxes (run initialState zero_size_trace)
     = [\<lparr> box_id = ''a'', box_type = reference, box_label = ''Paper'',
          box_x = NaN, box_y = NaN, box_w = NaN, box_h = NaN \<rparr>]"
    by (simp add: zero_size_trace_def initialState_def handler_defs number_defs Let_def)
  then show ?thesis
    by (simp add: min_size_def NaN_not_le)
qed

subsection \<open>The total window area\<close>





subsection \<open>Pricing\<close>

text \<open>
  Claim C5. The pricing output is absent whenever the total window area is undefined or
  zero: in every state with no calibration rectangle, with real-world inches that are
  non-positive (or NaN), or with a total area that is undefined, zero (or NaN), the section
  produces no quote; and a quote that is produced never has a zero retail total.
\<close>

theorem pricing_gated:
  "(referenceBox s = None \<or> refRealInches s \<le> Fin 0 \<or> refRealInches s = NaN
      \<or> windowSqft s = None \<or> windowSqft s = Some (Fin 0) \<or> windowSqft s = Some NaN
      \<longrightarrow> retailCommission s = None)
   \<and> (retailCommission s = Some q \<longrightarrow> retailLowTotal q \<noteq> Fin 0 \<and> retailHighTotal q \<noteq> Fin 0)"
proof (intro conjI impI)
  assume a: "referenceBox s = None \<or> refRealInches s \<le> Fin 0 \<or> refRealInches s = NaN
      \<or> windowSqft s = None \<or> windowSqft s = Some (Fin 0) \<or> windowSqft s = Some NaN"
  have "refRealInches s \<le> Fin 0 \<or> refRealInches s = NaN \<Longrightarrow> pixelsPerInch s = None"
    using not_positive[of "refRealInches s"]
    by (simp add: pixelsPerInch_def split: option.splits)
  moreover have "referenceBox s = None \<Longrightarrow> pixelsPerInch s = None"
    by (simp add: pixelsPerInch_def)
  ultimately have "falsy (windowSqft s) \<or> falsy (pixelsPerInch s)"
    using a by (auto simp: falsy_def falsy_number_def)
  then show "retailCommission s = None"
    by (simp add: retailCommission_def)
next
  assume q: "retailCommission s = Some q"
  then obtain sqft where "windowSqft s = Some sqft" "\<not> falsy_number sqft" "q = quote_of sqft"
    by (auto simp: retailCommission_def falsy_def split: option.splits if_splits)
  then show "retailLowTotal q \<noteq> Fin 0" and "retailHighTotal q \<noteq> Fin 0"
    by (simp_all add: quote_of_def Let_def RETAIL_LOW_PER_SQFT_def RETAIL_HIGH_PER_SQFT_def
        times_rate_nonzero)
qed

theorem pricing_gated_witness:
  "windowSqft reference_only_state = Some (Fin 0)
   \<and> retailCommission reference_only_state = None
   \<and> referenceBox initialState = None
   \<and> retailCommission initialState = None"
proof -
  have z: "windowSqft reference_only_state = Some (Fin 0)"
    by (simp add: windowSqft_def pixelsPerInch_def referenceBox_def windowBoxes_def
        reference_only_state_def initialState_def sample_box_def number_defs)
  have r: "referenceBox initialState = None"
    by (simp add: referenceBox_def initialState_def)
  from pricing_gated[of reference_only_state] z
  have a: "retailCommission reference_only_state = None" by simp
  from pricing_gated[of initialState] r
  have b: "retailCommission initialState = None" by simp
  from z r a b show ?thesis by simp
qed

text \<open>
  Claim C6. For every defined positive total area \<open>A\<close> the pricing output is linear in
  \<open>A\<close> with fixed per-square-foot constants: the retail totals are \<open>A\<close> times the low
  and the high retail rate, and each commission is the retail total minus \<open>A\<close> times the
  baseline rate. The rates are 12, 14 and 15; the earlier iteration of the component has
  the high rate 16 and is linear in the same way.
\<close>

theorem pricing_linear:
  assumes "windowSqft s = Some A" "Fin 0 < A"
  shows "retailCommission s
           = Some \<lparr> solarTotal = A * SOLAR_PER_SQFT,
                    retailLowTotal = A * RETAIL_LOW_PER_SQFT,
                    retailHighTotal = A * RETAIL_HIGH_PER_SQFT,
                    commissionLow = A * RETAIL_LOW_PER_SQFT - A * SOLAR_PER_SQFT,
                    commissionHigh = A * RETAIL_HIGH_PER_SQFT - A * SOLAR_PER_SQFT \<rparr>
       \<and> retailCommission_App s
           = Some \<lparr> solarTotal = A * SOLAR_PER_SQFT,
                    retailLowTotal = A * RETAIL_LOW_PER_SQFT,
                    retailHighTotal = A * RETAIL_HIGH_PER_SQFT_App,
                    commissionLow = A * RETAIL_LOW_PER_SQFT - A * SOLAR_PER_SQFT,
                    commissionHigh = A * RETAIL_HIGH_PER_SQFT_App - A * SOLAR_PER_SQFT \<rparr>
       \<and> SOLAR_PER_SQFT = Fin 12 \<and> RETAIL_LOW_PER_SQFT = Fin 14
       \<and> RETAIL_HIGH_PER_SQFT = Fin 15 \<and> RETAIL_HIGH_PER_SQFT_App = Fin 16"
proof -
  from assms(1) have "\<not> falsy (pixelsPerInch s)"
    by (auto simp: windowSqft_def split: if_splits)
  moreover from assms have "\<not> falsy (windowSqft s)"
    by (simp add: falsy_def positive_not_falsy)
  ultimately show ?thesis
    using assms(1)
    by (simp add: retailCommission_def retailCommission_App_def quote_of_def quote_of_App_def
        Let_def SOLAR_PER_SQFT_def RETAIL_LOW_PER_SQFT_def RETAIL_HIGH_PER_SQFT_def
        RETAIL_HIGH_PER_SQFT_App_def)
qed

theorem pricing_linear_witness:
  "windowSqft one_window_state = Some (Fin (50 / 144))
   \<and> retailCommission one_window_state
       = Some \<lparr> solarTotal = Fin (50 / 144 * 12), retailLowTotal = Fin (50 / 144 * 14),
                retailHighTotal = Fin (50 / 144 * 15),
                commissionLow = Fin (50 / 144 * 14 - 50 / 144 * 12),
                commissionHigh = Fin (50 / 144 * 15 - 50 / 144 * 12) \<rparr>"
proof -
  have a: "windowSqft one_window_state = Some (Fin (50 / 144))"
    by (simp add: windowSqft_def pixelsPerInch_def referenceBox_def windowBoxes_def
        one_window_state_def initialState_def sample_box_def number_defs Let_def)
  have p: "Fin 0 < Fin (50 / 144)" by simp
  from pricing_linear[OF a p] a show ?thesis
    by (simp add: SOLAR_PER_SQFT_def RETAIL_LOW_PER_SQFT_def RETAIL_HIGH_PER_SQFT_def
        number_defs)
qed

subsection \<open>The viewport\<close>

text \<open>
  What the code guarantees: \<^verbatim>\<open>clampScale\<close> puts every finite number and both infinities
  into \<open>[1, 6]\<close>, and hands NaN through.
\<close>

lemma clampScale_values:
  "clampScale (Fin r) = Fin (max 1 (min 6 r))"
  "clampScale PInf = Fin 6"
  "clampScale NInf = Fin 1"
  "clampScale NaN = NaN"
  by (simp_all add: clampScale_def Math_min_def Math_max_def max_def min_def)

lemma load_resets_view:
  "view (onFileChange (Some url) s) = \<lparr> view_scale = Fin 1, view_tx = Fin 0, view_ty = Fin 0 \<rparr>"
  "view (step s (FileChange (Some url))) = \<lparr> view_scale = Fin 1, view_tx = Fin 0, view_ty = Fin 0 \<rparr>"
  by (simp_all add: onFileChange_def resetView_def)

lemma onFileChange_App_keeps_view: "view (onFileChange_App f s) = view s"
  by (simp add: onFileChange_App_def resetAll_def split: option.splits)

text \<open>
  Claim C7 (the viewport scale always stays within \<open>[1, 6]\<close>) is broken by the code: when
  two pointers go down on the same spot the pinch baseline distance is 0, and a move that
  leaves them together computes \<open>0 / 0\<close>, which is NaN; \<^verbatim>\<open>Math.max(1, Math.min(6, NaN))\<close>
  is NaN, and the view is set to it.
\<close>

theorem nan_scale_after_coincident_pinch:
  "view_scale (view (run initialState coincident_pinch_trace)) = NaN
   \<and> clampScale (Fin 1 * (Fin 0 / Fin 0)) = NaN
   \<and> \<not> scale_ok (run initialState coincident_pinch_trace)"
proof -
  have v: "view_scale (view (run initialState coincident_pinch_trace)) = NaN"
    by (simp add: coincident_pinch_trace_def trace_defs handler_defs number_defs Let_def)
  then show ?thesis
    by (simp add: scale_ok_def NaN_not_le clampScale_values)
qed

text \<open>
  Claim C8 (loading a new photo resets the viewport to \<open>{scale: 1, tx: 0, ty: 0}\<close>) holds of
  \<^verbatim>\<open>onFileChange\<close> in \<^verbatim>\<open>part_000\<close> and is broken by \<^verbatim>\<open>onFileChange\<close> in
  \<^verbatim>\<open>src/App.tsx\<close>, which the claim cites as well: on a zoomed and panned view the first
  leaves the identity transform and the second leaves the view as it was.
\<close>

theorem App_load_keeps_view:
  "view (onFileChange_App (Some ''blob:second'') zoomed_state)
     = \<lparr> view_scale = Fin 2, view_tx = Fin 30, view_ty = Fin (- 40) \<rparr>
   \<and> view (onFileChange (Some ''blob:second'') zoomed_state)
     = \<lparr> view_scale = Fin 1, view_tx = Fin 0, view_ty = Fin 0 \<rparr>"
  by (simp add: onFileChange_App_def onFileChange_def resetAll_def resetView_def
      zoomed_state_def initialState_def)

subsection \<open>Committed rectangles and the image bounds\<close>

text \<open>
  Claim C9 (every committed rectangle lies within the loaded image's bounds) is broken by
  the code: \<^verbatim>\<open>onFileChange\<close> clears the rectangles but keeps the natural size of the
  previous photo until the load event of the new one, so a rectangle dragged in between is
  checked against the previous size and stays when the smaller size arrives.
\<close>

theorem rectangle_outside_new_image:
  "imageNatural (run initialState stale_size_trace) = Some \<lparr> nat_w = 500, nat_h = 400 \<rparr>
   \<and> boxes (run initialState stale_size_trace)
       = [\<lparr> box_id = ''a'', box_type = reference, box_label = ''Paper'',
            box_x = Fin 600, box_y = Fin 500, box_w = Fin 300, box_h = Fin 200 \<rparr>]
   \<and> \<not> committed_in_bounds (run initialState stale_size_trace)"
proof -
  have n: "imageNatural (run initialState stale_size_trace) = Some \<lparr> nat_w = 500, nat_h = 400 \<rparr>"
    by (simp add: stale_size_trace_def trace_defs handler_defs number_defs Let_def)
  have b: "boxes (run initialState stale_size_trace)
       = [\<lparr> box_id = ''a'', box_type = reference, box_label = ''Paper'',
            box_x = Fin 600, box_y = Fin 500, box_w = Fin 300, box_h = Fin 200 \<rparr>]"
    by (simp add: stale_size_trace_def trace_defs handler_defs number_defs Let_def)
  from n b show ?thesis
    by (simp add: committed_in_bounds_def in_bounds_def number_defs)
qed

text \<open>
  The rectangle with NaN coordinates that a drag on a 0 by 0 image commits is outside every
  image as well.
\<close>

lemma nan_box_outside_image: "\<not> committed_in_bounds (run initialState zero_size_trace)"
proof -
  have "imageNatural (run initialState zero_size_trace) = Some \<lparr> nat_w = 0, nat_h = 0 \<rparr>"
    by (simp add: zero_size_trace_def initialState_def handler_defs number_defs Let_def)
  moreover have "boxes (run initialState zero_size_trace)
     = [\<lparr> box_id = ''a'', box_type = reference, box_label = ''Paper'',
          box_x = NaN, box_y = NaN, box_w = NaN, box_h = NaN \<rparr>]"
    by (simp add: zero_size_trace_def initialState_def handler_defs number_defs Let_def)
  ultimately show ?thesis
    by (simp add: committed_in_bounds_def in_bounds_def NaN_not_le)
qed

subsection \<open>Labels\<close>

text \<open>
  Claim C10. Labels of committed measurement rectangles are not unique: commit two windows,
  delete the first, commit a third; the two committed measurement rectangles then both
  carry the label \<open>Window 2\<close>, the label being the count of measurement rectangles plus one
  when the drag starts, while their identities differ.
\<close>

theorem window_labels_repeat:
  "map box_type (boxes (run initialState relabel_trace)) = [window, window]
   \<and> map box_label (boxes (run initialState relabel_trace)) = [''Window 2'', ''Window 2'']
   \<and> map box_id (boxes (run initialState relabel_trace)) = [''b'', ''c'']
   \<and> distinct (map box_id (boxes (run initialState relabel_trace)))"
proof -
  have "map (\<lambda>b. (box_type b, box_label b, box_id b)) (boxes (run initialState relabel_trace))
          = [(window, ''Window 2'', ''b''), (window, ''Window 2'', ''c'')]"
    by (simp add: relabel_trace_def trace_defs handler_defs number_defs Let_def)
  then have "boxes (run initialState relabel_trace) \<noteq> []
      \<and> map box_type (boxes (run initialState relabel_trace)) = [window, window]
      \<and> map box_label (boxes (run initialState relabel_trace)) = [''Window 2'', ''Window 2'']
      \<and> map box_id (boxes (run initialState relabel_trace)) = [''b'', ''c'']"
    by (auto simp: map_eq_Cons_conv)
  then show ?thesis by simp
qed

end
